theory Spec2Isabelle
  imports Complex_Main
begin

section \<open>The Wellness Signal Engine of the MINCARE Mindworkout app\<close>

text \<open>
  The derivation rules of the React components \<^verbatim>\<open>StressSnap\<close>, \<^verbatim>\<open>MindGym\<close>,
  \<^verbatim>\<open>Dashboard\<close>, \<^verbatim>\<open>SleepPal\<close> and \<^verbatim>\<open>MoodJournal\<close>, embedded as HOL functions.

  A JavaScript \<^verbatim>\<open>number\<close> is an IEEE-754 double. A finite double is a rational number;
  the type \<open>number\<close> below is \<^typ>\<open>real\<close>, comparisons are exact on it, and every
  arithmetic operation of the source that can round is written with the rounding
  made explicit. Values that the program only ever obtains from an integer column of
  the database, from an array length or from \<^verbatim>\<open>Math.round\<close> are modelled as
  \<^typ>\<open>int\<close>: on them (32-bit columns, small sums) double arithmetic is exact.
\<close>

type_synonym number = real

subsection \<open>Double-precision arithmetic\<close>

text \<open>
  \<open>ilog2 x\<close> is the binary exponent of a positive number: the integer \<open>e\<close> with
  \<open>2 powi e \<le> x < 2 powi (e + 1)\<close>.
\<close>

function ilog2 :: "real \<Rightarrow> int" where
  "ilog2 x = (if x \<le> 0 then 0
              else if x < 1 then ilog2 (2 * x) - 1
              else if 2 \<le> x then ilog2 (x / 2) + 1
              else 0)"
  by pat_completeness auto
termination
proof (relation "measure (\<lambda>x. if x < 1 then nat \<lceil>1 / x\<rceil> else nat \<lfloor>x\<rfloor>)")
  show "wf (measure (\<lambda>x::real. if x < 1 then nat \<lceil>1 / x\<rceil> else nat \<lfloor>x\<rfloor>))"
    by simp
next
  fix x :: real
  assume a: "\<not> x \<le> 0" "x < 1"
  have big: "1 < 1 / x" using a by simp
  then have c2: "2 \<le> \<lceil>1 / x\<rceil>" by linarith
  show "(2 * x, x) \<in> measure (\<lambda>x. if x < 1 then nat \<lceil>1 / x\<rceil> else nat \<lfloor>x\<rfloor>)"
  proof (cases "2 * x < 1")
    case True
    have half: "\<lceil>y / 2\<rceil> < \<lceil>y\<rceil>" if "1 < y" for y :: real
    proof -
      have "2 \<le> \<lceil>y\<rceil>" using that by linarith
      then have "2 \<le> (of_int \<lceil>y\<rceil> :: real)" by linarith
      moreover have "y \<le> of_int \<lceil>y\<rceil>" by linarith
      ultimately have "y / 2 \<le> of_int \<lceil>y\<rceil> - 1" by linarith
      then show ?thesis by (simp add: ceiling_less_iff)
    qed
    have "1 / (2 * x) = (1 / x) / 2" by simp
    then have "\<lceil>1 / (2 * x)\<rceil> < \<lceil>1 / x\<rceil>" using half [OF big] by (simp only:)
    moreover have "0 < \<lceil>1 / x\<rceil>" using c2 by linarith
    ultimately show ?thesis using True a by simp
  next
    case False
    then have "\<lfloor>2 * x\<rfloor> = 1" using a by linarith
    then show ?thesis using False a c2 by simp
  qed
next
  fix x :: real
  assume a: "\<not> x \<le> 0" "\<not> x < 1" "2 \<le> x"
  then have "\<lfloor>x / 2\<rfloor> < \<lfloor>x\<rfloor>" "0 < \<lfloor>x\<rfloor>" by linarith+
  then show "(x / 2, x) \<in> measure (\<lambda>x. if x < 1 then nat \<lceil>1 / x\<rceil> else nat \<lfloor>x\<rfloor>)"
    using a by simp
qed

declare ilog2.simps [simp del]

text \<open>Rounding to the nearest integer, a tie going to the even one.\<close>

definition rhe :: "real \<Rightarrow> int" where
  "rhe x = (let f = \<lfloor>x\<rfloor>; r = x - of_int f
            in if r < 1 / 2 then f else if 1 / 2 < r then f + 1
               else if even f then f else f + 1)"

text \<open>
  \<open>rnd x\<close> is the double nearest to \<open>x\<close> (round to nearest, ties to even): \<open>x\<close> is
  scaled so that its significand has 53 bits (fewer below \<open>2 powi (- 1022)\<close>, where
  the spacing stays \<open>2 powi (- 1074)\<close>), rounded to an integer and scaled back. It is
  what a numeric literal denotes and what \<^verbatim>\<open>+\<close>, \<^verbatim>\<open>-\<close>, \<^verbatim>\<open>*\<close> and \<^verbatim>\<open>/\<close> return
  for the exact result \<open>x\<close>. Overflow to \<^verbatim>\<open>Infinity\<close>, \<^verbatim>\<open>NaN\<close> and the sign of zero
  are not modelled: no computation of this program reaches them.
\<close>

definition rnd :: "real \<Rightarrow> number" where
  "rnd x = (if x = 0 then 0
            else let q = max (ilog2 \<bar>x\<bar> - 52) (- 1074)
                 in sgn x * of_int (rhe (\<bar>x\<bar> / 2 powi q)) * 2 powi q)"


definition fadd :: "number \<Rightarrow> number \<Rightarrow> number" where
  "fadd x y = rnd (x + y)"

definition fsub :: "number \<Rightarrow> number \<Rightarrow> number" where
  "fsub x y = rnd (x - y)"

definition fmul :: "number \<Rightarrow> number \<Rightarrow> number" where
  "fmul x y = rnd (x * y)"

text \<open>Division by zero does not occur: every divisor is a non-zero literal or a
  length that the source has tested to be positive.\<close>

definition fdiv :: "number \<Rightarrow> number \<Rightarrow> number" where
  "fdiv x y = rnd (x / y)"

text \<open>
  \<^verbatim>\<open>Math.round\<close> returns the integer nearest to its argument, a tie going to the
  larger one; \<^verbatim>\<open>Math.floor\<close> the largest integer not above it. Both are exact.
\<close>

definition Math_round :: "number \<Rightarrow> int" where
  "Math_round x = \<lfloor>x + 1 / 2\<rfloor>"

definition Math_floor :: "number \<Rightarrow> int" where
  "Math_floor x = \<lfloor>x\<rfloor>"

subsection \<open>StressSnap: the stress classifier\<close>

text \<open>
  \<^verbatim>\<open>calculateStressLevel\<close> (StressSnap.tsx, lines 40-47). The heart rate is the
  value of a numeric input field, so it is any number, not only an integer.
\<close>

definition calculateStressLevel :: "number \<Rightarrow> int" where
  "calculateStressLevel hr =
     (if hr < 60 then 2
      else if hr < 70 then 3
      else if hr < 80 then 5
      else if hr < 90 then 7
      else if hr < 100 then 8
      else 9)"

subsection \<open>MindGym: the progress tracker\<close>

text \<open>
  \<^verbatim>\<open>completeExercise\<close> (MindGym.tsx, lines 65-82; the second copy of the component
  has the same body and then closes the exercise view). It reads the component's
  \<^verbatim>\<open>progress\<close> state, inserts one row into \<^verbatim>\<open>mindgym_progress\<close> and sets the new
  state. The result of the insert is not inspected, so the state is set in any case.
\<close>

record UserProgress =
  streak_count :: int
  fitness_level :: int
  total_completed :: int

record mindgym_progress_row =
  row_exercise_id :: string
  row_score :: int
  row_streak_count :: int
  row_fitness_level :: int

definition completeExercise ::
  "UserProgress \<Rightarrow> string \<Rightarrow> int \<Rightarrow> mindgym_progress_row \<times> UserProgress" where
  "completeExercise progress exerciseId score =
     (let newFitnessLevel = min 100 (fitness_level progress + 1);
          newStreak = streak_count progress + 1
      in (\<lparr>row_exercise_id = exerciseId, row_score = score,
            row_streak_count = newStreak, row_fitness_level = newFitnessLevel\<rparr>,
          \<lparr>streak_count = newStreak, fitness_level = newFitnessLevel,
            total_completed = total_completed progress + 1\<rparr>))"

subsection \<open>Dashboard: the wellness score\<close>

text \<open>
  \<^verbatim>\<open>calculatedScore\<close> (Dashboard.tsx, lines 66-72). \<^verbatim>\<open>moodCount\<close> is an array
  length, \<^verbatim>\<open>exercisesCompleted\<close> and \<^verbatim>\<open>streakDays\<close> are integer columns of the
  latest progress row, \<^verbatim>\<open>avgStress\<close> is a result of \<^verbatim>\<open>Math.round\<close>, and
  \<^verbatim>\<open>avgSleep\<close> is a number of hours with one decimal.
\<close>

definition calculatedScore :: "int \<Rightarrow> int \<Rightarrow> int \<Rightarrow> number \<Rightarrow> int \<Rightarrow> int" where
  "calculatedScore moodCount exercisesCompleted avgStress avgSleep streakDays =
     min 100 (Math_round (of_int (
       (if moodCount > 0 then 20 else 0) +
       (if exercisesCompleted > 0 then 25 else 0) +
       (if avgStress > 0 \<and> avgStress \<le> 5 then 20 else if avgStress > 5 then 10 else 0) +
       (if avgSleep \<ge> 7 \<and> avgSleep \<le> 9 then 25 else if avgSleep > 0 then 15 else 0) +
       (streakDays * 2))))"

text \<open>\<^verbatim>\<open>getScoreLabel\<close> (Dashboard.tsx, lines 119-124).\<close>

definition getScoreLabel :: "int \<Rightarrow> string" where
  "getScoreLabel score =
     (if score \<ge> 75 then ''Excellent''
      else if score \<ge> 50 then ''Good''
      else if score \<ge> 25 then ''Fair''
      else ''Needs Attention'')"

text \<open>
  \<^verbatim>\<open>loadDashboardData\<close> (Dashboard.tsx, lines 37-78), on the results of its five
  queries: the \<^verbatim>\<open>wellness_score\<close> of the user's profile row (\<open>None\<close> when there is no
  row), the number of mood entries, the latest progress row as a pair of its
  \<^verbatim>\<open>fitness_level\<close> and \<^verbatim>\<open>streak_count\<close> (\<open>None\<close> when there is none), the
  \<^verbatim>\<open>stress_level\<close> of the last seven stress readings and the
  \<^verbatim>\<open>duration_minutes\<close> of the last seven sleep sessions. It returns the data it
  displays in the end and the stored score after its conditional update, which changes
  the row when there is one and the new value passes the column's check (0 to 100).
\<close>

record dashboard_queries =
  profile :: "int option"
  moodEntries :: nat
  mindgymProgress :: "(int \<times> int) option"
  stressReadings :: "int list"
  sleepSessions :: "int list"

record DashboardData =
  wellnessScore :: int
  moodCount :: int
  exercisesCompleted :: int
  avgStress :: int
  avgSleep :: number
  streakDays :: int

definition loadDashboardData :: "dashboard_queries \<Rightarrow> DashboardData \<times> int option" where
  "loadDashboardData q =
     (let wellnessScore' = (case profile q of None \<Rightarrow> 50 | Some v \<Rightarrow> if v = 0 then 50 else v);
          moodCount' = int (moodEntries q);
          exercisesCompleted' = (case mindgymProgress q of None \<Rightarrow> 0 | Some (fl, sc) \<Rightarrow> fl);
          avgStress' =
            (if length (stressReadings q) > 0
             then Math_round (fdiv (of_int (foldl (+) 0 (stressReadings q)))
                                   (of_nat (length (stressReadings q))))
             else 0);
          avgSleep' =
            (if length (sleepSessions q) > 0
             then fdiv (of_int (Math_round (fmul (fdiv (fdiv
                          (of_int (foldl (+) 0 (sleepSessions q)))
                          (of_nat (length (sleepSessions q)))) 60) 10))) 10
             else 0);
          streakDays' = (case mindgymProgress q of None \<Rightarrow> 0 | Some (fl, sc) \<Rightarrow> sc);
          score = calculatedScore moodCount' exercisesCompleted' avgStress' avgSleep' streakDays'
      in (\<lparr>wellnessScore = (if score \<noteq> wellnessScore' then score else wellnessScore'),
            moodCount = moodCount',
            exercisesCompleted = exercisesCompleted', avgStress = avgStress',
            avgSleep = avgSleep', streakDays = streakDays'\<rparr>,
          if score \<noteq> wellnessScore'
          then (case profile q of
                  None \<Rightarrow> None
                | Some v \<Rightarrow> if 0 \<le> score \<and> score \<le> 100 then Some score else Some v)
          else profile q))"

subsection \<open>SleepPal: saving a session and the averages\<close>

text \<open>
  The value of a \<^verbatim>\<open>datetime-local\<close> input is the empty string or a date and time;
  \<open>Instant t\<close> stands for one whose \<^verbatim>\<open>new Date(value).getTime()\<close> is \<open>t\<close>
  milliseconds.
\<close>

datatype datetime_local = Blank | Instant int

record SleepSession =
  sleep_start :: int
  sleep_end :: int
  duration_minutes :: int
  quality_score :: int
  bedtime_routine_followed :: bool

record SleepPal_state =
  sleepStart :: datetime_local
  sleepEnd :: datetime_local
  quality :: int
  routineFollowed :: bool
  showNewSession :: bool
  sleep_sessions :: "SleepSession list"

text \<open>
  \<^verbatim>\<open>saveSleepSession\<close> (the SleepPal component, lines 328-350): it returns at once
  when one of the two fields is empty; otherwise it inserts a row into
  \<^verbatim>\<open>sleep_sessions\<close> (here: the table, newest row first) and resets the form.
\<close>

definition saveSleepSession :: "SleepPal_state \<Rightarrow> SleepPal_state" where
  "saveSleepSession st =
     (case (sleepStart st, sleepEnd st) of
        (Instant start, Instant end') \<Rightarrow>
          (let durationMinutes = Math_floor (fdiv (of_int (end' - start)) 60000)
           in st\<lparr>sleep_sessions :=
                   \<lparr>sleep_start = start, sleep_end = end',
                    duration_minutes = durationMinutes, quality_score = quality st,
                    bedtime_routine_followed = routineFollowed st\<rparr> # sleep_sessions st,
                 showNewSession := False, sleepStart := Blank, sleepEnd := Blank,
                 quality := 7, routineFollowed := False\<rparr>)
      | _ \<Rightarrow> st)"

text \<open>
  \<^verbatim>\<open>avgSleep\<close> and \<^verbatim>\<open>avgQuality\<close> of the component (lines 352-358), over the
  sessions it has loaded (at most seven).
\<close>

definition SleepPal_avgSleep :: "SleepSession list \<Rightarrow> number" where
  "SleepPal_avgSleep sessions =
     (if length sessions > 0
      then fdiv (of_int (Math_round (fmul (fdiv (fdiv
                  (of_int (foldl (\<lambda>acc s. acc + duration_minutes s) 0 sessions))
                  (of_nat (length sessions))) 60) 10))) 10
      else 0)"

definition SleepPal_avgQuality :: "SleepSession list \<Rightarrow> number" where
  "SleepPal_avgQuality sessions =
     (if length sessions > 0
      then fdiv (of_int (Math_round (fmul (fdiv
                  (of_int (foldl (\<lambda>acc s. acc + quality_score s) 0 sessions))
                  (of_nat (length sessions))) 10))) 10
      else 0)"

subsection \<open>MoodJournal: sentiment and insights\<close>

text \<open>
  Strings are lists of characters. \<^verbatim>\<open>toLowerCase\<close> is modelled on the letters A to
  Z; every other character is kept, which does not change what the vocabulary below,
  all lower-case ASCII letters, matches. \<^verbatim>\<open>includes\<close> is the test for a contiguous
  substring.
\<close>

definition toLowerCase :: "string \<Rightarrow> string" where
  "toLowerCase s = map (\<lambda>c. let n = (of_char c :: nat)
                               in if 65 \<le> n \<and> n \<le> 90 then char_of (n + 32) else c) s"

fun startsWith :: "string \<Rightarrow> string \<Rightarrow> bool" where
  "startsWith s [] = True"
| "startsWith [] (w # ws) = False"
| "startsWith (c # cs) (w # ws) = (c = w \<and> startsWith cs ws)"

fun String_includes :: "string \<Rightarrow> string \<Rightarrow> bool" where
  "String_includes [] w = (w = [])"
| "String_includes (c # cs) w = (startsWith (c # cs) w \<or> String_includes cs w)"

definition positiveWords :: "string list" where
  "positiveWords = [''happy'', ''good'', ''great'', ''wonderful'', ''excellent'', ''love'',
     ''joy'', ''peace'', ''calm'', ''grateful'']"

definition negativeWords :: "string list" where
  "negativeWords = [''sad'', ''bad'', ''terrible'', ''awful'', ''hate'', ''angry'',
     ''stress'', ''anxious'', ''worried'', ''pain'']"

text \<open>
  \<^verbatim>\<open>analyzeSentiment\<close> (MoodJournal.tsx, lines 54-70). The literal \<^verbatim>\<open>0.1\<close> is the
  double nearest to one tenth, and \<^verbatim>\<open>+=\<close> and \<^verbatim>\<open>-=\<close> round after each step.
\<close>

definition analyzeSentiment :: "string \<Rightarrow> number" where
  "analyzeSentiment text =
     (let lowerText = toLowerCase text;
          score = 0;
          score = fold (\<lambda>word score.
                    if String_includes lowerText word then fadd score (rnd (1 / 10)) else score)
                    positiveWords score;
          score = fold (\<lambda>word score.
                    if String_includes lowerText word then fsub score (rnd (1 / 10)) else score)
                    negativeWords score
      in max (- 1) (min 1 score))"

text \<open>
  \<^verbatim>\<open>generateInsights\<close> (MoodJournal.tsx, lines 72-116). The table \<^verbatim>\<open>insights\<close> is an
  object literal, so \<^verbatim>\<open>insights[mood]\<close> finds the six pools and also what every
  object inherits from \<^verbatim>\<open>Object.prototype\<close>: functions and, for \<^verbatim>\<open>__proto__\<close>, the
  prototype itself. Such a value is truthy, so the \<^verbatim>\<open>||\<close> keeps it, and indexing it
  by a number yields \<^verbatim>\<open>undefined\<close>.
\<close>

definition insights :: "(string \<times> string list) list" where
  "insights =
    [(''anxious'',
       [''Try the 4-7-8 breathing technique to calm your nervous system.'',
        ''Consider a 5-minute meditation to ground yourself.'',
        ''Take a short walk outside to reset your mind.'']),
     (''sad'',
       [''Reach out to a friend or loved one for connection.'',
        ''Practice self-compassion - it's okay to feel this way.'',
        ''Try gentle movement like yoga or stretching.'']),
     (''frustrated'',
       [''Take a brief break to reset before continuing.'',
        ''Journal about what's causing frustration to gain clarity.'',
        ''Try progressive muscle relaxation to release tension.'']),
     (''tired'',
       [''Consider your sleep schedule - are you getting 7-9 hours?'',
        ''A 10-minute power nap might help recharge.'',
        ''Review your evening routine for better rest tonight.'']),
     (''happy'',
       [''Great! Capture this moment in your gratitude journal.'',
        ''Share your positivity with the CalmCircle community.'',
        ''Notice what contributed to this feeling.'']),
     (''calm'',
       [''Wonderful! You're in a great state for meditation or reflection.'',
        ''This is an ideal time for creative work or planning.'',
        ''Consider what helped you reach this peaceful state.''])]"

definition Object_prototype_names :: "string list" where
  "Object_prototype_names =
    [''constructor'', ''hasOwnProperty'', ''isPrototypeOf'', ''propertyIsEnumerable'',
     ''toLocaleString'', ''toString'', ''valueOf'', ''__proto__'', ''__defineGetter__'',
     ''__defineSetter__'', ''__lookupGetter__'', ''__lookupSetter__'']"

text \<open>
  \<open>moodInsights mood\<close> is \<^verbatim>\<open>insights[mood] || [...]\<close>: \<open>Some pool\<close> for an array of
  messages, \<open>None\<close> for an inherited function or object.
\<close>

definition moodInsights :: "string \<Rightarrow> string list option" where
  "moodInsights mood =
     (case map_of insights mood of
        Some pool \<Rightarrow> Some pool
      | None \<Rightarrow> if mood \<in> set Object_prototype_names then None
                else Some [''Keep tracking your mood to identify patterns.''])"

text \<open>An array element, \<open>None\<close> standing for \<^verbatim>\<open>undefined\<close>.\<close>

definition element :: "string list \<Rightarrow> int \<Rightarrow> string option" where
  "element xs i = (if 0 \<le> i \<and> i < int (length xs) then Some (xs ! nat i) else None)"

text \<open>What a template literal prints for a value that may be \<^verbatim>\<open>undefined\<close>.\<close>

definition template :: "string option \<Rightarrow> string" where
  "template v = (case v of None \<Rightarrow> ''undefined'' | Some s \<Rightarrow> s)"

text \<open>
  The first argument is the number that \<^verbatim>\<open>Math.random()\<close> returns in this call, a
  double in the interval [0, 1). The result is \<open>None\<close> when the function returns
  \<^verbatim>\<open>undefined\<close>.
\<close>

definition generateInsights :: "number \<Rightarrow> string \<Rightarrow> string \<Rightarrow> number \<Rightarrow> string option" where
  "generateInsights random mood text sentiment =
     (let randomInsight =
            (case moodInsights mood of
               Some pool \<Rightarrow> element pool (Math_floor (fmul random (of_nat (length pool))))
             | None \<Rightarrow> None)
      in if sentiment < - rnd (3 / 10)
         then Some (template randomInsight
                @ '' Your entry suggests you might benefit from extra self-care today.'')
         else if sentiment > rnd (3 / 10)
         then Some (template randomInsight @ '' Your positive energy is wonderful to see!'')
         else randomInsight)"

subsection \<open>Counting vocabulary words\<close>

text \<open>
  The notions in which the sentiment score is specified: the number of vocabulary
  words that occur in the lower-cased text, and the running sum after \<open>p\<close> additions
  and then \<open>n\<close> subtractions of \<^verbatim>\<open>0.1\<close>, starting from 0.
\<close>

definition positiveCount :: "string \<Rightarrow> nat" where
  "positiveCount text = length (filter (String_includes (toLowerCase text)) positiveWords)"

definition negativeCount :: "string \<Rightarrow> nat" where
  "negativeCount text = length (filter (String_includes (toLowerCase text)) negativeWords)"

definition runningScore :: "nat \<Rightarrow> nat \<Rightarrow> number" where
  "runningScore p n =
     ((\<lambda>score. fsub score (rnd (1 / 10))) ^^ n) (((\<lambda>score. fadd score (rnd (1 / 10))) ^^ p) 0)"

section \<open>Properties\<close>

subsection \<open>Rounding to a double is monotone\<close>

lemma ilog2_bounds:
  "0 < x \<Longrightarrow> 2 powi (ilog2 x) \<le> x \<and> x < 2 powi (ilog2 x + 1)"
proof (induction x rule: ilog2.induct)
  case (1 x)
  show ?case
  proof (cases "x < 1")
    case True
    then have e: "ilog2 x = ilog2 (2 * x) - 1" using 1(3) by (subst ilog2.simps) simp
    have ih: "2 powi (ilog2 (2 * x)) \<le> 2 * x \<and> 2 * x < 2 powi (ilog2 (2 * x) + 1)"
      using 1(1) [OF _ True] 1(3) by simp
    show ?thesis unfolding e using ih
      by (simp add: power_int_add power_int_diff)
  next
    case False
    show ?thesis
    proof (cases "2 \<le> x")
      case True
      then have e: "ilog2 x = ilog2 (x / 2) + 1" using False 1(3) by (subst ilog2.simps) simp
      have ih: "2 powi (ilog2 (x / 2)) \<le> x / 2 \<and> x / 2 < 2 powi (ilog2 (x / 2) + 1)"
        using 1(2) [OF _ False True] 1(3) by simp
      show ?thesis unfolding e using ih
        by (simp add: power_int_add)
    next
      case F2: False
      then have e: "ilog2 x = 0" using False 1(3) by (subst ilog2.simps) simp
      show ?thesis unfolding e using False F2 by simp
    qed
  qed
qed


lemma ilog2_mono:
  assumes "0 < x" "x \<le> y"
  shows "ilog2 x \<le> ilog2 y"
proof (rule ccontr)
  assume "\<not> ilog2 x \<le> ilog2 y"
  then have "ilog2 y + 1 \<le> ilog2 x" by simp
  then have "(2::real) powi (ilog2 y + 1) \<le> 2 powi (ilog2 x)"
    by (intro power_int_increasing) auto
  moreover have "0 < y" using assms by simp
  ultimately show False
    using ilog2_bounds [OF assms(1)] ilog2_bounds [OF \<open>0 < y\<close>] assms(2) by linarith
qed

lemma rhe_of_int: "rhe (of_int n) = n"
  by (simp add: rhe_def)

lemma rhe_mono: assumes "x \<le> y" shows "rhe x \<le> rhe y"
proof (cases "\<lfloor>x\<rfloor> = \<lfloor>y\<rfloor>")
  case True
  then show ?thesis using assms unfolding rhe_def Let_def by (auto split: if_splits)
next
  case False
  then have "\<lfloor>x\<rfloor> + 1 \<le> \<lfloor>y\<rfloor>" using floor_mono [OF assms] by linarith
  moreover have "rhe x \<le> \<lfloor>x\<rfloor> + 1" "\<lfloor>y\<rfloor> \<le> rhe y" unfolding rhe_def Let_def by auto
  ultimately show ?thesis by linarith
qed

lemma rhe_error: "\<bar>of_int (rhe x) - x\<bar> \<le> 1 / 2"
  unfolding rhe_def Let_def by (auto split: if_splits)

lemma rnd_minus: "rnd (- x) = - rnd x"
  by (simp add: rnd_def Let_def)

lemma rnd_pos:
  "0 < x \<Longrightarrow> rnd x = of_int (rhe (x / 2 powi (max (ilog2 x - 52) (- 1074))))
                     * 2 powi (max (ilog2 x - 52) (- 1074))"
  by (simp add: rnd_def Let_def)

lemma pow2_quot:
  assumes "q \<le> e"
  shows "(2::real) powi e / 2 powi q = of_int (2 ^ nat (e - q))"
proof -
  have "(2::real) powi e / 2 powi q = 2 powi (e - q)" by (simp add: power_int_diff)
  also have "\<dots> = 2 ^ nat (e - q)" using assms by (simp add: power_int_nonneg_exp)
  finally show ?thesis by simp
qed

lemma rhe_pow_le:
  assumes "x \<le> 2 powi e" "q \<le> e"
  shows "of_int (rhe (x / 2 powi q)) * 2 powi q \<le> (2::real) powi e"
proof -
  have p: "(0::real) < 2 powi q" by simp
  have "x / 2 powi q \<le> 2 powi e / 2 powi q"
    using assms(1) p by (simp add: divide_right_mono)
  then have "rhe (x / 2 powi q) \<le> rhe (of_int (2 ^ nat (e - q)))"
    unfolding pow2_quot [OF assms(2)] by (rule rhe_mono)
  then have "rhe (x / 2 powi q) \<le> 2 ^ nat (e - q)" by (simp only: rhe_of_int)
  then have "(of_int (rhe (x / 2 powi q)) :: real) \<le> of_int (2 ^ nat (e - q))"
    by (simp only: of_int_le_iff)
  then have "(of_int (rhe (x / 2 powi q)) :: real) \<le> 2 powi e / 2 powi q"
    by (simp only: pow2_quot [OF assms(2)])
  then show ?thesis using p by (simp add: pos_le_divide_eq)
qed

lemma rhe_pow_ge:
  assumes "2 powi e \<le> x" "q \<le> e"
  shows "(2::real) powi e \<le> of_int (rhe (x / 2 powi q)) * 2 powi q"
proof -
  have p: "(0::real) < 2 powi q" by simp
  have "2 powi e / 2 powi q \<le> x / 2 powi q"
    using assms(1) p by (simp add: divide_right_mono)
  then have "rhe (of_int (2 ^ nat (e - q))) \<le> rhe (x / 2 powi q)"
    unfolding pow2_quot [OF assms(2)] by (rule rhe_mono)
  then have "2 ^ nat (e - q) \<le> rhe (x / 2 powi q)" by (simp only: rhe_of_int)
  then have "(of_int (2 ^ nat (e - q)) :: real) \<le> of_int (rhe (x / 2 powi q))"
    by (simp only: of_int_le_iff)
  then have "2 powi e / 2 powi q \<le> (of_int (rhe (x / 2 powi q)) :: real)"
    by (simp only: pow2_quot [OF assms(2)])
  then show ?thesis using p by (simp add: pos_divide_le_eq)
qed

lemma rnd_nonneg: assumes "0 \<le> x" shows "0 \<le> rnd x"
proof (cases "x = 0")
  case True then show ?thesis by (simp add: rnd_def)
next
  case False
  then have x: "0 < x" using assms by simp
  have "rhe 0 \<le> rhe (x / 2 powi (max (ilog2 x - 52) (- 1074)))"
    using x by (intro rhe_mono) simp
  then have "0 \<le> rhe (x / 2 powi (max (ilog2 x - 52) (- 1074)))"
    using rhe_of_int [of 0] by simp
  then show ?thesis unfolding rnd_pos [OF x] by simp
qed

lemma rnd_pos_mono:
  assumes "0 < x" "x \<le> y"
  shows "rnd x \<le> rnd y"
proof -
  have y: "0 < y" using assms by simp
  define qx where "qx = max (ilog2 x - 52) (- 1074)"
  define qy where "qy = max (ilog2 y - 52) (- 1074)"
  have rx: "rnd x = of_int (rhe (x / 2 powi qx)) * 2 powi qx"
    unfolding qx_def by (rule rnd_pos [OF assms(1)])
  have ry: "rnd y = of_int (rhe (y / 2 powi qy)) * 2 powi qy"
    unfolding qy_def by (rule rnd_pos [OF y])
  have le: "qx \<le> qy" unfolding qx_def qy_def using ilog2_mono [OF assms] by simp
  show ?thesis
  proof (cases "qx = qy")
    case True
    have "x / 2 powi qy \<le> y / 2 powi qy" using assms(2) by (simp add: divide_right_mono)
    then have "rhe (x / 2 powi qy) \<le> rhe (y / 2 powi qy)" by (rule rhe_mono)
    then show ?thesis unfolding rx ry True by (simp add: mult_right_mono)
  next
    case False
    with le have lt: "qx < qy" by simp
    then have qy52: "qy = ilog2 y - 52" and ex: "ilog2 x + 1 \<le> ilog2 y"
      unfolding qx_def qy_def by linarith+
    have "x < 2 powi (ilog2 x + 1)" using ilog2_bounds [OF assms(1)] by simp
    also have "\<dots> \<le> 2 powi (ilog2 y)" using ex by (intro power_int_increasing) auto
    finally have xB: "x \<le> 2 powi (ilog2 y)" by simp
    have "qx \<le> ilog2 y" using lt qy52 by simp
    from rhe_pow_le [OF xB this] have "rnd x \<le> 2 powi (ilog2 y)" unfolding rx .
    moreover have "2 powi (ilog2 y) \<le> rnd y"
      unfolding ry using ilog2_bounds [OF y] qy52 by (intro rhe_pow_ge) simp_all
    ultimately show ?thesis by simp
  qed
qed

lemma rnd_mono: assumes "x \<le> y" shows "rnd x \<le> rnd y"
proof -
  consider "0 < x" | "x \<le> 0" "0 \<le> y" | "y < 0" by linarith
  then show ?thesis
  proof cases
    case 1 then show ?thesis using assms by (rule rnd_pos_mono)
  next
    case 2
    have "0 \<le> rnd (- x)" using 2 by (intro rnd_nonneg) simp
    then have "rnd x \<le> 0" by (simp add: rnd_minus)
    moreover have "0 \<le> rnd y" using 2 by (intro rnd_nonneg)
    ultimately show ?thesis by simp
  next
    case 3
    have "rnd (- y) \<le> rnd (- x)" using 3 assms by (intro rnd_pos_mono) simp_all
    then show ?thesis by (simp add: rnd_minus)
  qed
qed




subsection \<open>The claims\<close>

lemma Math_round_of_int: "Math_round (of_int n) = n"
  unfolding Math_round_def by linarith

text \<open>
  Claim C2. The stress classifier returns one of the tiers 2, 3, 5, 7, 8, 9 for every
  heart rate; heart rates in [40,59] give 2, in [60,69] give 3, in [70,79] give 5, in
  [80,89] give 7, in [90,99] give 8 and from 100 on give 9; each of the boundary
  values 60, 70, 80, 90, 100 falls into the higher bucket; and the tier never
  decreases when the heart rate increases.
\<close>

theorem calculateStressLevel_breakpoints:
  "calculateStressLevel hr \<in> {2, 3, 5, 7, 8, 9}
   \<and> (40 \<le> a \<and> a \<le> 59 \<longrightarrow> calculateStressLevel a = 2)
   \<and> (60 \<le> b \<and> b \<le> 69 \<longrightarrow> calculateStressLevel b = 3)
   \<and> (70 \<le> c \<and> c \<le> 79 \<longrightarrow> calculateStressLevel c = 5)
   \<and> (80 \<le> d \<and> d \<le> 89 \<longrightarrow> calculateStressLevel d = 7)
   \<and> (90 \<le> e \<and> e \<le> 99 \<longrightarrow> calculateStressLevel e = 8)
   \<and> (100 \<le> f \<longrightarrow> calculateStressLevel f = 9)
   \<and> calculateStressLevel 60 = 3 \<and> calculateStressLevel 70 = 5
   \<and> calculateStressLevel 80 = 7 \<and> calculateStressLevel 90 = 8
   \<and> calculateStressLevel 100 = 9
   \<and> (x \<le> y \<longrightarrow> calculateStressLevel x \<le> calculateStressLevel y)"
  by (simp add: calculateStressLevel_def)

theorem calculateStressLevel_breakpoints_witness:
  "calculateStressLevel 45 = 2 \<and> calculateStressLevel 65 = 3 \<and> calculateStressLevel 75 = 5
   \<and> calculateStressLevel 85 = 7 \<and> calculateStressLevel 95 = 8
   \<and> calculateStressLevel 140 = 9
   \<and> calculateStressLevel 65 \<le> calculateStressLevel 85"
  using calculateStressLevel_breakpoints
    [of 45 45 65 75 85 95 140 65 85]
  by simp

text \<open>
  Claim C7. Completing an exercise sets the streak to the current streak plus one,
  whatever the current streak is, and the fitness level to the smaller of 100 and the
  current level plus one; the inserted row carries the same two values. From streak 3
  and level 99 the result is streak 4 and level 100; from 0 and 0 it is 1 and 1.
\<close>

theorem completeExercise_progress:
  "streak_count (snd (completeExercise p ex sc)) = streak_count p + 1
   \<and> fitness_level (snd (completeExercise p ex sc)) = min 100 (fitness_level p + 1)
   \<and> row_streak_count (fst (completeExercise p ex sc)) = streak_count p + 1
   \<and> row_fitness_level (fst (completeExercise p ex sc)) = min 100 (fitness_level p + 1)
   \<and> snd (completeExercise \<lparr>streak_count = 3, fitness_level = 99, total_completed = n\<rparr> ex sc)
       = \<lparr>streak_count = 4, fitness_level = 100, total_completed = n + 1\<rparr>
   \<and> snd (completeExercise \<lparr>streak_count = 0, fitness_level = 0, total_completed = n\<rparr> ex sc)
       = \<lparr>streak_count = 1, fitness_level = 1, total_completed = n + 1\<rparr>"
  by (simp add: completeExercise_def Let_def)

lemma calculatedScore_sum:
  "calculatedScore m f s h d =
     min 100 (
       (if m > 0 then 20 else 0) +
       (if f > 0 then 25 else 0) +
       (if s > 0 \<and> s \<le> 5 then 20 else if s > 5 then 10 else 0) +
       (if h \<ge> 7 \<and> h \<le> 9 then 25 else if h > 0 then 15 else 0) +
       (d * 2))"
  by (simp only: calculatedScore_def Math_round_of_int)

lemma getScoreLabel_cases:
  "(getScoreLabel score = ''Excellent'') = (score \<ge> 75)"
  "(getScoreLabel score = ''Good'') = (50 \<le> score \<and> score < 75)"
  "(getScoreLabel score = ''Fair'') = (25 \<le> score \<and> score < 50)"
  "(getScoreLabel score = ''Needs Attention'') = (score < 25)"
  by (auto simp add: getScoreLabel_def)

text \<open>
  Claim C1. The wellness score is the smaller of 100 and the sum of five buckets:
  20 when there is a mood entry; 25 when the fitness level is positive; 20 for an
  average stress tier in (0,5], 10 above 5, 0 otherwise; 25 for 7 to 9 hours of
  average sleep, 15 for a positive average outside that band, 0 otherwise; and twice
  the streak. The label is Excellent exactly from 75 on, Good exactly in [50,75),
  Fair exactly in [25,50) and Needs Attention exactly below 25. The inputs
  (5, 10, 4, 8, 3) give 96, labelled Excellent, and with a streak of 50 the score is
  100.
\<close>

theorem calculatedScore_buckets:
  "calculatedScore moodEntryCount fitnessLevel avgStressTier avgSleepHours streak =
     (let b1 = (if moodEntryCount > 0 then 20 else 0);
          b2 = (if fitnessLevel > 0 then 25 else 0);
          b3 = (if 0 < avgStressTier \<and> avgStressTier \<le> 5 then 20
                else if avgStressTier > 5 then 10 else 0);
          b4 = (if 7 \<le> avgSleepHours \<and> avgSleepHours \<le> 9 then 25
                else if avgSleepHours > 0 then 15 else 0);
          b5 = 2 * streak
      in min 100 (b1 + b2 + b3 + b4 + b5))
   \<and> (getScoreLabel score = ''Excellent'') = (score \<ge> 75)
   \<and> (getScoreLabel score = ''Good'') = (50 \<le> score \<and> score < 75)
   \<and> (getScoreLabel score = ''Fair'') = (25 \<le> score \<and> score < 50)
   \<and> (getScoreLabel score = ''Needs Attention'') = (score < 25)
   \<and> calculatedScore 5 10 4 8 3 = 96
   \<and> getScoreLabel (calculatedScore 5 10 4 8 3) = ''Excellent''
   \<and> calculatedScore 5 10 4 8 50 = 100"
proof -
  have "calculatedScore 5 10 4 8 3 = 96" "calculatedScore 5 10 4 8 50 = 100"
    by (simp_all add: calculatedScore_sum)
  then show ?thesis
    unfolding Let_def
    by (simp only: calculatedScore_sum getScoreLabel_cases mult.commute [of 2 streak])
       (simp add: getScoreLabel_def)
qed

lemmas rnd_eval = rnd_def ilog2.simps rhe_def Let_def

lemma rnd_neg_minute: "rnd (- 1 / 60000) < 0"
  by (simp add: rnd_eval)

lemma durationMinutes_negative:
  assumes "e < s"
  shows "Math_floor (fdiv (of_int (e - s)) 60000) < 0"
proof -
  have "real_of_int (e - s) \<le> - 1" using assms by linarith
  then have "real_of_int (e - s) / 60000 \<le> - 1 / 60000" by (simp add: divide_right_mono)
  then have "rnd (real_of_int (e - s) / 60000) \<le> rnd (- 1 / 60000)" by (rule rnd_mono)
  then have "rnd (real_of_int (e - s) / 60000) < 0" using rnd_neg_minute by linarith
  then show ?thesis by (simp add: Math_floor_def fdiv_def)
qed

text \<open>
  Claim C3, as stated: a save request whose end is earlier than its start is rejected
  and no negative duration is stored. It fails: with bedtime 2024-01-02 07:00 and wake
  time 2024-01-01 23:00 (UTC, in milliseconds) the row is inserted with a duration of
  -480 minutes.
\<close>

theorem saveSleepSession_negative_duration_counterexample:
  "sleep_sessions (saveSleepSession
     \<lparr>sleepStart = Instant 1704178800000, sleepEnd = Instant 1704150000000, quality = 7,
      routineFollowed = False, showNewSession = True, sleep_sessions = []\<rparr>)
   = [\<lparr>sleep_start = 1704178800000, sleep_end = 1704150000000, duration_minutes = - 480,
       quality_score = 7, bedtime_routine_followed = False\<rparr>]"
  by (simp add: saveSleepSession_def Math_floor_def fdiv_def rnd_eval)

text \<open>
  Claim C3, amended. The save operation rejects a request, storing nothing and
  leaving the form as it is, exactly when the start or the end field is empty. With
  both timestamps present it makes no comparison of them: it inserts a row whose
  duration is the floor of (end - start) / 60000, and that duration is negative
  whenever the end is earlier than the start.
\<close>

theorem saveSleepSession_stores_duration:
  "(sleepStart st = Instant s \<and> sleepEnd st = Instant e \<longrightarrow>
      sleep_sessions (saveSleepSession st) =
        \<lparr>sleep_start = s, sleep_end = e,
         duration_minutes = Math_floor (fdiv (of_int (e - s)) 60000),
         quality_score = quality st,
         bedtime_routine_followed = routineFollowed st\<rparr> # sleep_sessions st
      \<and> (e < s \<longrightarrow> duration_minutes (hd (sleep_sessions (saveSleepSession st))) < 0))
   \<and> (sleepStart st = Blank \<or> sleepEnd st = Blank \<longrightarrow> saveSleepSession st = st)"
proof (intro conjI impI)
  assume "sleepStart st = Blank \<or> sleepEnd st = Blank"
  then show "saveSleepSession st = st"
    by (auto simp add: saveSleepSession_def split: datetime_local.splits)
next
  assume a: "sleepStart st = Instant s \<and> sleepEnd st = Instant e"
  then show row: "sleep_sessions (saveSleepSession st) =
        \<lparr>sleep_start = s, sleep_end = e,
         duration_minutes = Math_floor (fdiv (of_int (e - s)) 60000),
         quality_score = quality st,
         bedtime_routine_followed = routineFollowed st\<rparr> # sleep_sessions st"
    by (simp add: saveSleepSession_def Let_def)
  assume "e < s"
  then have "Math_floor (fdiv (of_int (e - s)) 60000) < 0"
    by (rule durationMinutes_negative)
  then show "duration_minutes (hd (sleep_sessions (saveSleepSession st))) < 0"
    by (simp only: row list.sel SleepSession.select_convs)
qed

theorem saveSleepSession_stores_duration_witness:
  "duration_minutes (hd (sleep_sessions (saveSleepSession
     \<lparr>sleepStart = Instant 1704178800000, sleepEnd = Instant 1704150000000, quality = 7,
      routineFollowed = False, showNewSession = True, sleep_sessions = []\<rparr>))) < 0
   \<and> saveSleepSession
     \<lparr>sleepStart = Instant 1704178800000, sleepEnd = Blank, quality = 7,
      routineFollowed = False, showNewSession = True, sleep_sessions = []\<rparr>
     = \<lparr>sleepStart = Instant 1704178800000, sleepEnd = Blank, quality = 7,
      routineFollowed = False, showNewSession = True, sleep_sessions = []\<rparr>"
proof -
  have a: "sleepStart \<lparr>sleepStart = Instant 1704178800000, sleepEnd = Instant 1704150000000,
      quality = 7, routineFollowed = False, showNewSession = True, sleep_sessions = []\<rparr>
      = Instant 1704178800000
    \<and> sleepEnd \<lparr>sleepStart = Instant 1704178800000, sleepEnd = Instant 1704150000000,
      quality = 7, routineFollowed = False, showNewSession = True, sleep_sessions = []\<rparr>
      = Instant 1704150000000"
    by simp
  have b: "(1704150000000 :: int) < 1704178800000" by simp
  have c: "sleepStart \<lparr>sleepStart = Instant 1704178800000, sleepEnd = Blank, quality = 7,
      routineFollowed = False, showNewSession = True, sleep_sessions = []\<rparr> = Blank
    \<or> sleepEnd \<lparr>sleepStart = Instant 1704178800000, sleepEnd = Blank, quality = 7,
      routineFollowed = False, showNewSession = True, sleep_sessions = []\<rparr> = Blank"
    by simp
  from saveSleepSession_stores_duration [THEN conjunct1, THEN mp, OF a, THEN conjunct2,
      THEN mp, OF b]
    saveSleepSession_stores_duration [THEN conjunct2, THEN mp, OF c]
  show ?thesis by (rule conjI)
qed

lemma avgSleep_450: "fdiv (of_int (Math_round (fmul (fdiv (fdiv 1350 3) 60) 10))) 10 = 15 / 2"
  by (simp add: fdiv_def fmul_def Math_round_def rnd_eval)

lemma rnd_7_2: "rnd (72 / 10) \<noteq> 15 / 2"
  by (simp add: rnd_eval)

text \<open>
  Claim C4, as stated: for three sessions of 420, 480 and 450 minutes the average is
  7.2 hours. It fails: the mean is 450 minutes, and the component computes 7.5, which
  is neither 7.2 nor the double nearest to 7.2.
\<close>

theorem avgSleep_three_nights_counterexample:
  "SleepPal_avgSleep
     [\<lparr>sleep_start = 0, sleep_end = 25200000, duration_minutes = 420, quality_score = 7,
        bedtime_routine_followed = False\<rparr>,
      \<lparr>sleep_start = 86400000, sleep_end = 115200000, duration_minutes = 480,
        quality_score = 8, bedtime_routine_followed = True\<rparr>,
      \<lparr>sleep_start = 172800000, sleep_end = 199800000, duration_minutes = 450,
        quality_score = 6, bedtime_routine_followed = False\<rparr>] \<noteq> 72 / 10
   \<and> SleepPal_avgSleep
     [\<lparr>sleep_start = 0, sleep_end = 25200000, duration_minutes = 420, quality_score = 7,
        bedtime_routine_followed = False\<rparr>,
      \<lparr>sleep_start = 86400000, sleep_end = 115200000, duration_minutes = 480,
        quality_score = 8, bedtime_routine_followed = True\<rparr>,
      \<lparr>sleep_start = 172800000, sleep_end = 199800000, duration_minutes = 450,
        quality_score = 6, bedtime_routine_followed = False\<rparr>] \<noteq> rnd (72 / 10)"
proof -
  have "SleepPal_avgSleep
     [\<lparr>sleep_start = 0, sleep_end = 25200000, duration_minutes = 420, quality_score = 7,
        bedtime_routine_followed = False\<rparr>,
      \<lparr>sleep_start = 86400000, sleep_end = 115200000, duration_minutes = 480,
        quality_score = 8, bedtime_routine_followed = True\<rparr>,
      \<lparr>sleep_start = 172800000, sleep_end = 199800000, duration_minutes = 450,
        quality_score = 6, bedtime_routine_followed = False\<rparr>] = 15 / 2"
    by (simp add: SleepPal_avgSleep_def avgSleep_450)
  moreover have "(15 / 2 :: real) \<noteq> 72 / 10" by simp
  ultimately show ?thesis using rnd_7_2 by (simp only: not_sym [OF rnd_7_2] simp_thms)
qed

text \<open>
  Claim C4, amended. For every list of exactly three sleep sessions with durations
  420, 480 and 450 minutes the average-hours output is 7.5: the mean duration of 450
  minutes divided by 60 and rounded to one decimal place.
\<close>

theorem avgSleep_three_nights:
  assumes "map duration_minutes sessions = [420, 480, 450]"
  shows "SleepPal_avgSleep sessions = 15 / 2
     \<and> (15 / 2 :: real) = of_int (Math_round ((420 + 480 + 450) / 3 / 60 * 10)) / 10"
proof -
  from assms obtain a b c where s: "sessions = [a, b, c]"
    and d: "duration_minutes a = 420" "duration_minutes b = 480" "duration_minutes c = 450"
    by auto
  have "SleepPal_avgSleep sessions = 15 / 2"
    by (simp add: SleepPal_avgSleep_def s d avgSleep_450)
  moreover have "(15 / 2 :: real) = of_int (Math_round ((420 + 480 + 450) / 3 / 60 * 10)) / 10"
    by (simp add: Math_round_def)
  ultimately show ?thesis by (rule conjI)
qed

theorem avgSleep_three_nights_witness:
  "SleepPal_avgSleep
     [\<lparr>sleep_start = 0, sleep_end = 25200000, duration_minutes = 420, quality_score = 7,
        bedtime_routine_followed = False\<rparr>,
      \<lparr>sleep_start = 86400000, sleep_end = 115200000, duration_minutes = 480,
        quality_score = 8, bedtime_routine_followed = True\<rparr>,
      \<lparr>sleep_start = 172800000, sleep_end = 199800000, duration_minutes = 450,
        quality_score = 6, bedtime_routine_followed = False\<rparr>] = 15 / 2"
  by (rule avgSleep_three_nights [THEN conjunct1]) simp

text \<open>
  Claim C8. For the empty list of sleep sessions the average hours and the average
  quality are both 0: a value, not a failure.
\<close>

theorem avg_of_no_sessions:
  "SleepPal_avgSleep [] = 0 \<and> SleepPal_avgQuality [] = 0"
  by (simp add: SleepPal_avgSleep_def SleepPal_avgQuality_def)

subsection \<open>The sentiment score\<close>

lemma fold_cond_funpow:
  "fold (\<lambda>w s. if P w then f s else s) ws s0 = (f ^^ length (filter P ws)) s0"
  by (induction ws arbitrary: s0) (simp_all add: funpow_swap1)

lemma analyzeSentiment_runningScore:
  "analyzeSentiment text =
     max (- 1) (min 1 (runningScore (positiveCount text) (negativeCount text)))"
  by (simp add: analyzeSentiment_def Let_def fold_cond_funpow runningScore_def
      positiveCount_def negativeCount_def)

lemma runningScore_next_p:
  "runningScore p 0 = v \<Longrightarrow> fadd v (rnd (1 / 10)) = w \<Longrightarrow> p' = p + 1
     \<Longrightarrow> runningScore p' 0 = w"
  by (simp add: runningScore_def)

lemma runningScore_next_n:
  "runningScore p n = v \<Longrightarrow> fsub v (rnd (1 / 10)) = w \<Longrightarrow> n' = n + 1
     \<Longrightarrow> runningScore p n' = w"
  by (simp add: runningScore_def)

lemma tenth: "rnd (1 / 10) = 3602879701896397 / 36028797018963968"
  by (simp add: rnd_eval)

lemmas step_eval = fadd_def fsub_def tenth rnd_eval

text \<open>
  The running score after \<open>p\<close> additions and \<open>n\<close> subtractions of \<^verbatim>\<open>0.1\<close>, for all
  counts up to ten, each entry computed from the one before it.
\<close>

lemma runningScore_row_0:
  "runningScore 0 0 = 0"
  "runningScore 0 1 = - (3602879701896397 / 36028797018963968)"
  "runningScore 0 2 = - (3602879701896397 / 18014398509481984)"
  "runningScore 0 3 = - (1351079888211149 / 4503599627370496)"
  "runningScore 0 4 = - (3602879701896397 / 9007199254740992)"
  "runningScore 0 5 = - (1 / 2)"
  "runningScore 0 6 = - (5404319552844595 / 9007199254740992)"
  "runningScore 0 7 = - (3152519739159347 / 4503599627370496)"
  "runningScore 0 8 = - (7205759403792793 / 9007199254740992)"
  "runningScore 0 9 = - (2026619832316723 / 2251799813685248)"
  "runningScore 0 10 = - (9007199254740991 / 9007199254740992)"
proof -
  show v0: "runningScore 0 0 = 0" by (simp add: runningScore_def)
  show v1: "runningScore 0 1 = - (3602879701896397 / 36028797018963968)"
    by (rule runningScore_next_n [OF v0]) (simp_all add: step_eval)
  show v2: "runningScore 0 2 = - (3602879701896397 / 18014398509481984)"
    by (rule runningScore_next_n [OF v1]) (simp_all add: step_eval)
  show v3: "runningScore 0 3 = - (1351079888211149 / 4503599627370496)"
    by (rule runningScore_next_n [OF v2]) (simp_all add: step_eval)
  show v4: "runningScore 0 4 = - (3602879701896397 / 9007199254740992)"
    by (rule runningScore_next_n [OF v3]) (simp_all add: step_eval)
  show v5: "runningScore 0 5 = - (1 / 2)"
    by (rule runningScore_next_n [OF v4]) (simp_all add: step_eval)
  show v6: "runningScore 0 6 = - (5404319552844595 / 9007199254740992)"
    by (rule runningScore_next_n [OF v5]) (simp_all add: step_eval)
  show v7: "runningScore 0 7 = - (3152519739159347 / 4503599627370496)"
    by (rule runningScore_next_n [OF v6]) (simp_all add: step_eval)
  show v8: "runningScore 0 8 = - (7205759403792793 / 9007199254740992)"
    by (rule runningScore_next_n [OF v7]) (simp_all add: step_eval)
  show v9: "runningScore 0 9 = - (2026619832316723 / 2251799813685248)"
    by (rule runningScore_next_n [OF v8]) (simp_all add: step_eval)
  show v10: "runningScore 0 10 = - (9007199254740991 / 9007199254740992)"
    by (rule runningScore_next_n [OF v9]) (simp_all add: step_eval)
qed

lemma runningScore_row_1:
  "runningScore 1 0 = 3602879701896397 / 36028797018963968"
  "runningScore 1 1 = 0"
  "runningScore 1 2 = - (3602879701896397 / 36028797018963968)"
  "runningScore 1 3 = - (3602879701896397 / 18014398509481984)"
  "runningScore 1 4 = - (1351079888211149 / 4503599627370496)"
  "runningScore 1 5 = - (3602879701896397 / 9007199254740992)"
  "runningScore 1 6 = - (1 / 2)"
  "runningScore 1 7 = - (5404319552844595 / 9007199254740992)"
  "runningScore 1 8 = - (3152519739159347 / 4503599627370496)"
  "runningScore 1 9 = - (7205759403792793 / 9007199254740992)"
  "runningScore 1 10 = - (2026619832316723 / 2251799813685248)"
proof -
  show v0: "runningScore 1 0 = 3602879701896397 / 36028797018963968"
    by (rule runningScore_next_p [OF runningScore_row_0(1)]) (simp_all add: step_eval)
  show v1: "runningScore 1 1 = 0"
    by (rule runningScore_next_n [OF v0]) (simp_all add: step_eval)
  show v2: "runningScore 1 2 = - (3602879701896397 / 36028797018963968)"
    by (rule runningScore_next_n [OF v1]) (simp_all add: step_eval)
  show v3: "runningScore 1 3 = - (3602879701896397 / 18014398509481984)"
    by (rule runningScore_next_n [OF v2]) (simp_all add: step_eval)
  show v4: "runningScore 1 4 = - (1351079888211149 / 4503599627370496)"
    by (rule runningScore_next_n [OF v3]) (simp_all add: step_eval)
  show v5: "runningScore 1 5 = - (3602879701896397 / 9007199254740992)"
    by (rule runningScore_next_n [OF v4]) (simp_all add: step_eval)
  show v6: "runningScore 1 6 = - (1 / 2)"
    by (rule runningScore_next_n [OF v5]) (simp_all add: step_eval)
  show v7: "runningScore 1 7 = - (5404319552844595 / 9007199254740992)"
    by (rule runningScore_next_n [OF v6]) (simp_all add: step_eval)
  show v8: "runningScore 1 8 = - (3152519739159347 / 4503599627370496)"
    by (rule runningScore_next_n [OF v7]) (simp_all add: step_eval)
  show v9: "runningScore 1 9 = - (7205759403792793 / 9007199254740992)"
    by (rule runningScore_next_n [OF v8]) (simp_all add: step_eval)
  show v10: "runningScore 1 10 = - (2026619832316723 / 2251799813685248)"
    by (rule runningScore_next_n [OF v9]) (simp_all add: step_eval)
qed

lemma runningScore_row_2:
  "runningScore 2 0 = 3602879701896397 / 18014398509481984"
  "runningScore 2 1 = 3602879701896397 / 36028797018963968"
  "runningScore 2 2 = 0"
  "runningScore 2 3 = - (3602879701896397 / 36028797018963968)"
  "runningScore 2 4 = - (3602879701896397 / 18014398509481984)"
  "runningScore 2 5 = - (1351079888211149 / 4503599627370496)"
  "runningScore 2 6 = - (3602879701896397 / 9007199254740992)"
  "runningScore 2 7 = - (1 / 2)"
  "runningScore 2 8 = - (5404319552844595 / 9007199254740992)"
  "runningScore 2 9 = - (3152519739159347 / 4503599627370496)"
  "runningScore 2 10 = - (7205759403792793 / 9007199254740992)"
proof -
  show v0: "runningScore 2 0 = 3602879701896397 / 18014398509481984"
    by (rule runningScore_next_p [OF runningScore_row_1(1)]) (simp_all add: step_eval)
  show v1: "runningScore 2 1 = 3602879701896397 / 36028797018963968"
    by (rule runningScore_next_n [OF v0]) (simp_all add: step_eval)
  show v2: "runningScore 2 2 = 0"
    by (rule runningScore_next_n [OF v1]) (simp_all add: step_eval)
  show v3: "runningScore 2 3 = - (3602879701896397 / 36028797018963968)"
    by (rule runningScore_next_n [OF v2]) (simp_all add: step_eval)
  show v4: "runningScore 2 4 = - (3602879701896397 / 18014398509481984)"
    by (rule runningScore_next_n [OF v3]) (simp_all add: step_eval)
  show v5: "runningScore 2 5 = - (1351079888211149 / 4503599627370496)"
    by (rule runningScore_next_n [OF v4]) (simp_all add: step_eval)
  show v6: "runningScore 2 6 = - (3602879701896397 / 9007199254740992)"
    by (rule runningScore_next_n [OF v5]) (simp_all add: step_eval)
  show v7: "runningScore 2 7 = - (1 / 2)"
    by (rule runningScore_next_n [OF v6]) (simp_all add: step_eval)
  show v8: "runningScore 2 8 = - (5404319552844595 / 9007199254740992)"
    by (rule runningScore_next_n [OF v7]) (simp_all add: step_eval)
  show v9: "runningScore 2 9 = - (3152519739159347 / 4503599627370496)"
    by (rule runningScore_next_n [OF v8]) (simp_all add: step_eval)
  show v10: "runningScore 2 10 = - (7205759403792793 / 9007199254740992)"
    by (rule runningScore_next_n [OF v9]) (simp_all add: step_eval)
qed

lemma runningScore_row_3:
  "runningScore 3 0 = 1351079888211149 / 4503599627370496"
  "runningScore 3 1 = 7205759403792795 / 36028797018963968"
  "runningScore 3 2 = 1801439850948199 / 18014398509481984"
  "runningScore 3 3 = 1 / 36028797018963968"
  "runningScore 3 4 = - (900719925474099 / 9007199254740992)"
  "runningScore 3 5 = - (7205759403792793 / 36028797018963968)"
  "runningScore 3 6 = - (5404319552844595 / 18014398509481984)"
  "runningScore 3 7 = - (3602879701896397 / 9007199254740992)"
  "runningScore 3 8 = - (1 / 2)"
  "runningScore 3 9 = - (5404319552844595 / 9007199254740992)"
  "runningScore 3 10 = - (3152519739159347 / 4503599627370496)"
proof -
  show v0: "runningScore 3 0 = 1351079888211149 / 4503599627370496"
    by (rule runningScore_next_p [OF runningScore_row_2(1)]) (simp_all add: step_eval)
  show v1: "runningScore 3 1 = 7205759403792795 / 36028797018963968"
    by (rule runningScore_next_n [OF v0]) (simp_all add: step_eval)
  show v2: "runningScore 3 2 = 1801439850948199 / 18014398509481984"
    by (rule runningScore_next_n [OF v1]) (simp_all add: step_eval)
  show v3: "runningScore 3 3 = 1 / 36028797018963968"
    by (rule runningScore_next_n [OF v2]) (simp_all add: step_eval)
  show v4: "runningScore 3 4 = - (900719925474099 / 9007199254740992)"
    by (rule runningScore_next_n [OF v3]) (simp_all add: step_eval)
  show v5: "runningScore 3 5 = - (7205759403792793 / 36028797018963968)"
    by (rule runningScore_next_n [OF v4]) (simp_all add: step_eval)
  show v6: "runningScore 3 6 = - (5404319552844595 / 18014398509481984)"
    by (rule runningScore_next_n [OF v5]) (simp_all add: step_eval)
  show v7: "runningScore 3 7 = - (3602879701896397 / 9007199254740992)"
    by (rule runningScore_next_n [OF v6]) (simp_all add: step_eval)
  show v8: "runningScore 3 8 = - (1 / 2)"
    by (rule runningScore_next_n [OF v7]) (simp_all add: step_eval)
  show v9: "runningScore 3 9 = - (5404319552844595 / 9007199254740992)"
    by (rule runningScore_next_n [OF v8]) (simp_all add: step_eval)
  show v10: "runningScore 3 10 = - (3152519739159347 / 4503599627370496)"
    by (rule runningScore_next_n [OF v9]) (simp_all add: step_eval)
qed

lemma runningScore_row_4:
  "runningScore 4 0 = 3602879701896397 / 9007199254740992"
  "runningScore 4 1 = 1351079888211149 / 4503599627370496"
  "runningScore 4 2 = 7205759403792795 / 36028797018963968"
  "runningScore 4 3 = 1801439850948199 / 18014398509481984"
  "runningScore 4 4 = 1 / 36028797018963968"
  "runningScore 4 5 = - (900719925474099 / 9007199254740992)"
  "runningScore 4 6 = - (7205759403792793 / 36028797018963968)"
  "runningScore 4 7 = - (5404319552844595 / 18014398509481984)"
  "runningScore 4 8 = - (3602879701896397 / 9007199254740992)"
  "runningScore 4 9 = - (1 / 2)"
  "runningScore 4 10 = - (5404319552844595 / 9007199254740992)"
proof -
  show v0: "runningScore 4 0 = 3602879701896397 / 9007199254740992"
    by (rule runningScore_next_p [OF runningScore_row_3(1)]) (simp_all add: step_eval)
  show v1: "runningScore 4 1 = 1351079888211149 / 4503599627370496"
    by (rule runningScore_next_n [OF v0]) (simp_all add: step_eval)
  show v2: "runningScore 4 2 = 7205759403792795 / 36028797018963968"
    by (rule runningScore_next_n [OF v1]) (simp_all add: step_eval)
  show v3: "runningScore 4 3 = 1801439850948199 / 18014398509481984"
    by (rule runningScore_next_n [OF v2]) (simp_all add: step_eval)
  show v4: "runningScore 4 4 = 1 / 36028797018963968"
    by (rule runningScore_next_n [OF v3]) (simp_all add: step_eval)
  show v5: "runningScore 4 5 = - (900719925474099 / 9007199254740992)"
    by (rule runningScore_next_n [OF v4]) (simp_all add: step_eval)
  show v6: "runningScore 4 6 = - (7205759403792793 / 36028797018963968)"
    by (rule runningScore_next_n [OF v5]) (simp_all add: step_eval)
  show v7: "runningScore 4 7 = - (5404319552844595 / 18014398509481984)"
    by (rule runningScore_next_n [OF v6]) (simp_all add: step_eval)
  show v8: "runningScore 4 8 = - (3602879701896397 / 9007199254740992)"
    by (rule runningScore_next_n [OF v7]) (simp_all add: step_eval)
  show v9: "runningScore 4 9 = - (1 / 2)"
    by (rule runningScore_next_n [OF v8]) (simp_all add: step_eval)
  show v10: "runningScore 4 10 = - (5404319552844595 / 9007199254740992)"
    by (rule runningScore_next_n [OF v9]) (simp_all add: step_eval)
qed

lemma runningScore_row_5:
  "runningScore 5 0 = 1 / 2"
  "runningScore 5 1 = 3602879701896397 / 9007199254740992"
  "runningScore 5 2 = 1351079888211149 / 4503599627370496"
  "runningScore 5 3 = 7205759403792795 / 36028797018963968"
  "runningScore 5 4 = 1801439850948199 / 18014398509481984"
  "runningScore 5 5 = 1 / 36028797018963968"
  "runningScore 5 6 = - (900719925474099 / 9007199254740992)"
  "runningScore 5 7 = - (7205759403792793 / 36028797018963968)"
  "runningScore 5 8 = - (5404319552844595 / 18014398509481984)"
  "runningScore 5 9 = - (3602879701896397 / 9007199254740992)"
  "runningScore 5 10 = - (1 / 2)"
proof -
  show v0: "runningScore 5 0 = 1 / 2"
    by (rule runningScore_next_p [OF runningScore_row_4(1)]) (simp_all add: step_eval)
  show v1: "runningScore 5 1 = 3602879701896397 / 9007199254740992"
    by (rule runningScore_next_n [OF v0]) (simp_all add: step_eval)
  show v2: "runningScore 5 2 = 1351079888211149 / 4503599627370496"
    by (rule runningScore_next_n [OF v1]) (simp_all add: step_eval)
  show v3: "runningScore 5 3 = 7205759403792795 / 36028797018963968"
    by (rule runningScore_next_n [OF v2]) (simp_all add: step_eval)
  show v4: "runningScore 5 4 = 1801439850948199 / 18014398509481984"
    by (rule runningScore_next_n [OF v3]) (simp_all add: step_eval)
  show v5: "runningScore 5 5 = 1 / 36028797018963968"
    by (rule runningScore_next_n [OF v4]) (simp_all add: step_eval)
  show v6: "runningScore 5 6 = - (900719925474099 / 9007199254740992)"
    by (rule runningScore_next_n [OF v5]) (simp_all add: step_eval)
  show v7: "runningScore 5 7 = - (7205759403792793 / 36028797018963968)"
    by (rule runningScore_next_n [OF v6]) (simp_all add: step_eval)
  show v8: "runningScore 5 8 = - (5404319552844595 / 18014398509481984)"
    by (rule runningScore_next_n [OF v7]) (simp_all add: step_eval)
  show v9: "runningScore 5 9 = - (3602879701896397 / 9007199254740992)"
    by (rule runningScore_next_n [OF v8]) (simp_all add: step_eval)
  show v10: "runningScore 5 10 = - (1 / 2)"
    by (rule runningScore_next_n [OF v9]) (simp_all add: step_eval)
qed

lemma runningScore_row_6:
  "runningScore 6 0 = 5404319552844595 / 9007199254740992"
  "runningScore 6 1 = 1 / 2"
  "runningScore 6 2 = 3602879701896397 / 9007199254740992"
  "runningScore 6 3 = 1351079888211149 / 4503599627370496"
  "runningScore 6 4 = 7205759403792795 / 36028797018963968"
  "runningScore 6 5 = 1801439850948199 / 18014398509481984"
  "runningScore 6 6 = 1 / 36028797018963968"
  "runningScore 6 7 = - (900719925474099 / 9007199254740992)"
  "runningScore 6 8 = - (7205759403792793 / 36028797018963968)"
  "runningScore 6 9 = - (5404319552844595 / 18014398509481984)"
  "runningScore 6 10 = - (3602879701896397 / 9007199254740992)"
proof -
  show v0: "runningScore 6 0 = 5404319552844595 / 9007199254740992"
    by (rule runningScore_next_p [OF runningScore_row_5(1)]) (simp_all add: step_eval)
  show v1: "runningScore 6 1 = 1 / 2"
    by (rule runningScore_next_n [OF v0]) (simp_all add: step_eval)
  show v2: "runningScore 6 2 = 3602879701896397 / 9007199254740992"
    by (rule runningScore_next_n [OF v1]) (simp_all add: step_eval)
  show v3: "runningScore 6 3 = 1351079888211149 / 4503599627370496"
    by (rule runningScore_next_n [OF v2]) (simp_all add: step_eval)
  show v4: "runningScore 6 4 = 7205759403792795 / 36028797018963968"
    by (rule runningScore_next_n [OF v3]) (simp_all add: step_eval)
  show v5: "runningScore 6 5 = 1801439850948199 / 18014398509481984"
    by (rule runningScore_next_n [OF v4]) (simp_all add: step_eval)
  show v6: "runningScore 6 6 = 1 / 36028797018963968"
    by (rule runningScore_next_n [OF v5]) (simp_all add: step_eval)
  show v7: "runningScore 6 7 = - (900719925474099 / 9007199254740992)"
    by (rule runningScore_next_n [OF v6]) (simp_all add: step_eval)
  show v8: "runningScore 6 8 = - (7205759403792793 / 36028797018963968)"
    by (rule runningScore_next_n [OF v7]) (simp_all add: step_eval)
  show v9: "runningScore 6 9 = - (5404319552844595 / 18014398509481984)"
    by (rule runningScore_next_n [OF v8]) (simp_all add: step_eval)
  show v10: "runningScore 6 10 = - (3602879701896397 / 9007199254740992)"
    by (rule runningScore_next_n [OF v9]) (simp_all add: step_eval)
qed

lemma runningScore_row_7:
  "runningScore 7 0 = 3152519739159347 / 4503599627370496"
  "runningScore 7 1 = 5404319552844595 / 9007199254740992"
  "runningScore 7 2 = 1 / 2"
  "runningScore 7 3 = 3602879701896397 / 9007199254740992"
  "runningScore 7 4 = 1351079888211149 / 4503599627370496"
  "runningScore 7 5 = 7205759403792795 / 36028797018963968"
  "runningScore 7 6 = 1801439850948199 / 18014398509481984"
  "runningScore 7 7 = 1 / 36028797018963968"
  "runningScore 7 8 = - (900719925474099 / 9007199254740992)"
  "runningScore 7 9 = - (7205759403792793 / 36028797018963968)"
  "runningScore 7 10 = - (5404319552844595 / 18014398509481984)"
proof -
  show v0: "runningScore 7 0 = 3152519739159347 / 4503599627370496"
    by (rule runningScore_next_p [OF runningScore_row_6(1)]) (simp_all add: step_eval)
  show v1: "runningScore 7 1 = 5404319552844595 / 9007199254740992"
    by (rule runningScore_next_n [OF v0]) (simp_all add: step_eval)
  show v2: "runningScore 7 2 = 1 / 2"
    by (rule runningScore_next_n [OF v1]) (simp_all add: step_eval)
  show v3: "runningScore 7 3 = 3602879701896397 / 9007199254740992"
    by (rule runningScore_next_n [OF v2]) (simp_all add: step_eval)
  show v4: "runningScore 7 4 = 1351079888211149 / 4503599627370496"
    by (rule runningScore_next_n [OF v3]) (simp_all add: step_eval)
  show v5: "runningScore 7 5 = 7205759403792795 / 36028797018963968"
    by (rule runningScore_next_n [OF v4]) (simp_all add: step_eval)
  show v6: "runningScore 7 6 = 1801439850948199 / 18014398509481984"
    by (rule runningScore_next_n [OF v5]) (simp_all add: step_eval)
  show v7: "runningScore 7 7 = 1 / 36028797018963968"
    by (rule runningScore_next_n [OF v6]) (simp_all add: step_eval)
  show v8: "runningScore 7 8 = - (900719925474099 / 9007199254740992)"
    by (rule runningScore_next_n [OF v7]) (simp_all add: step_eval)
  show v9: "runningScore 7 9 = - (7205759403792793 / 36028797018963968)"
    by (rule runningScore_next_n [OF v8]) (simp_all add: step_eval)
  show v10: "runningScore 7 10 = - (5404319552844595 / 18014398509481984)"
    by (rule runningScore_next_n [OF v9]) (simp_all add: step_eval)
qed

lemma runningScore_row_8:
  "runningScore 8 0 = 7205759403792793 / 9007199254740992"
  "runningScore 8 1 = 3152519739159347 / 4503599627370496"
  "runningScore 8 2 = 5404319552844595 / 9007199254740992"
  "runningScore 8 3 = 1 / 2"
  "runningScore 8 4 = 3602879701896397 / 9007199254740992"
  "runningScore 8 5 = 1351079888211149 / 4503599627370496"
  "runningScore 8 6 = 7205759403792795 / 36028797018963968"
  "runningScore 8 7 = 1801439850948199 / 18014398509481984"
  "runningScore 8 8 = 1 / 36028797018963968"
  "runningScore 8 9 = - (900719925474099 / 9007199254740992)"
  "runningScore 8 10 = - (7205759403792793 / 36028797018963968)"
proof -
  show v0: "runningScore 8 0 = 7205759403792793 / 9007199254740992"
    by (rule runningScore_next_p [OF runningScore_row_7(1)]) (simp_all add: step_eval)
  show v1: "runningScore 8 1 = 3152519739159347 / 4503599627370496"
    by (rule runningScore_next_n [OF v0]) (simp_all add: step_eval)
  show v2: "runningScore 8 2 = 5404319552844595 / 9007199254740992"
    by (rule runningScore_next_n [OF v1]) (simp_all add: step_eval)
  show v3: "runningScore 8 3 = 1 / 2"
    by (rule runningScore_next_n [OF v2]) (simp_all add: step_eval)
  show v4: "runningScore 8 4 = 3602879701896397 / 9007199254740992"
    by (rule runningScore_next_n [OF v3]) (simp_all add: step_eval)
  show v5: "runningScore 8 5 = 1351079888211149 / 4503599627370496"
    by (rule runningScore_next_n [OF v4]) (simp_all add: step_eval)
  show v6: "runningScore 8 6 = 7205759403792795 / 36028797018963968"
    by (rule runningScore_next_n [OF v5]) (simp_all add: step_eval)
  show v7: "runningScore 8 7 = 1801439850948199 / 18014398509481984"
    by (rule runningScore_next_n [OF v6]) (simp_all add: step_eval)
  show v8: "runningScore 8 8 = 1 / 36028797018963968"
    by (rule runningScore_next_n [OF v7]) (simp_all add: step_eval)
  show v9: "runningScore 8 9 = - (900719925474099 / 9007199254740992)"
    by (rule runningScore_next_n [OF v8]) (simp_all add: step_eval)
  show v10: "runningScore 8 10 = - (7205759403792793 / 36028797018963968)"
    by (rule runningScore_next_n [OF v9]) (simp_all add: step_eval)
qed

lemma runningScore_row_9:
  "runningScore 9 0 = 2026619832316723 / 2251799813685248"
  "runningScore 9 1 = 7205759403792793 / 9007199254740992"
  "runningScore 9 2 = 3152519739159347 / 4503599627370496"
  "runningScore 9 3 = 5404319552844595 / 9007199254740992"
  "runningScore 9 4 = 1 / 2"
  "runningScore 9 5 = 3602879701896397 / 9007199254740992"
  "runningScore 9 6 = 1351079888211149 / 4503599627370496"
  "runningScore 9 7 = 7205759403792795 / 36028797018963968"
  "runningScore 9 8 = 1801439850948199 / 18014398509481984"
  "runningScore 9 9 = 1 / 36028797018963968"
  "runningScore 9 10 = - (900719925474099 / 9007199254740992)"
proof -
  show v0: "runningScore 9 0 = 2026619832316723 / 2251799813685248"
    by (rule runningScore_next_p [OF runningScore_row_8(1)]) (simp_all add: step_eval)
  show v1: "runningScore 9 1 = 7205759403792793 / 9007199254740992"
    by (rule runningScore_next_n [OF v0]) (simp_all add: step_eval)
  show v2: "runningScore 9 2 = 3152519739159347 / 4503599627370496"
    by (rule runningScore_next_n [OF v1]) (simp_all add: step_eval)
  show v3: "runningScore 9 3 = 5404319552844595 / 9007199254740992"
    by (rule runningScore_next_n [OF v2]) (simp_all add: step_eval)
  show v4: "runningScore 9 4 = 1 / 2"
    by (rule runningScore_next_n [OF v3]) (simp_all add: step_eval)
  show v5: "runningScore 9 5 = 3602879701896397 / 9007199254740992"
    by (rule runningScore_next_n [OF v4]) (simp_all add: step_eval)
  show v6: "runningScore 9 6 = 1351079888211149 / 4503599627370496"
    by (rule runningScore_next_n [OF v5]) (simp_all add: step_eval)
  show v7: "runningScore 9 7 = 7205759403792795 / 36028797018963968"
    by (rule runningScore_next_n [OF v6]) (simp_all add: step_eval)
  show v8: "runningScore 9 8 = 1801439850948199 / 18014398509481984"
    by (rule runningScore_next_n [OF v7]) (simp_all add: step_eval)
  show v9: "runningScore 9 9 = 1 / 36028797018963968"
    by (rule runningScore_next_n [OF v8]) (simp_all add: step_eval)
  show v10: "runningScore 9 10 = - (900719925474099 / 9007199254740992)"
    by (rule runningScore_next_n [OF v9]) (simp_all add: step_eval)
qed

lemma runningScore_row_10:
  "runningScore 10 0 = 9007199254740991 / 9007199254740992"
  "runningScore 10 1 = 2026619832316723 / 2251799813685248"
  "runningScore 10 2 = 7205759403792793 / 9007199254740992"
  "runningScore 10 3 = 3152519739159347 / 4503599627370496"
  "runningScore 10 4 = 5404319552844595 / 9007199254740992"
  "runningScore 10 5 = 1 / 2"
  "runningScore 10 6 = 3602879701896397 / 9007199254740992"
  "runningScore 10 7 = 1351079888211149 / 4503599627370496"
  "runningScore 10 8 = 7205759403792795 / 36028797018963968"
  "runningScore 10 9 = 1801439850948199 / 18014398509481984"
  "runningScore 10 10 = 1 / 36028797018963968"
proof -
  show v0: "runningScore 10 0 = 9007199254740991 / 9007199254740992"
    by (rule runningScore_next_p [OF runningScore_row_9(1)]) (simp_all add: step_eval)
  show v1: "runningScore 10 1 = 2026619832316723 / 2251799813685248"
    by (rule runningScore_next_n [OF v0]) (simp_all add: step_eval)
  show v2: "runningScore 10 2 = 7205759403792793 / 9007199254740992"
    by (rule runningScore_next_n [OF v1]) (simp_all add: step_eval)
  show v3: "runningScore 10 3 = 3152519739159347 / 4503599627370496"
    by (rule runningScore_next_n [OF v2]) (simp_all add: step_eval)
  show v4: "runningScore 10 4 = 5404319552844595 / 9007199254740992"
    by (rule runningScore_next_n [OF v3]) (simp_all add: step_eval)
  show v5: "runningScore 10 5 = 1 / 2"
    by (rule runningScore_next_n [OF v4]) (simp_all add: step_eval)
  show v6: "runningScore 10 6 = 3602879701896397 / 9007199254740992"
    by (rule runningScore_next_n [OF v5]) (simp_all add: step_eval)
  show v7: "runningScore 10 7 = 1351079888211149 / 4503599627370496"
    by (rule runningScore_next_n [OF v6]) (simp_all add: step_eval)
  show v8: "runningScore 10 8 = 7205759403792795 / 36028797018963968"
    by (rule runningScore_next_n [OF v7]) (simp_all add: step_eval)
  show v9: "runningScore 10 9 = 1801439850948199 / 18014398509481984"
    by (rule runningScore_next_n [OF v8]) (simp_all add: step_eval)
  show v10: "runningScore 10 10 = 1 / 36028797018963968"
    by (rule runningScore_next_n [OF v9]) (simp_all add: step_eval)
qed

lemmas runningScore_table =
  runningScore_row_0 runningScore_row_1 runningScore_row_2 runningScore_row_3 runningScore_row_4 runningScore_row_5 runningScore_row_6 runningScore_row_7 runningScore_row_8 runningScore_row_9 runningScore_row_10

lemma upto_10: "k \<le> 10 \<Longrightarrow> k \<in> {0, 1, 2, 3, 4, 5, 6, 7, 8, 9, 10 :: nat}"
  by (simp only: insert_iff empty_iff) presburger

lemma runningScore_bounds:
  assumes "p \<le> 10" "n \<le> 10"
  shows "- 1 \<le> runningScore p n \<and> runningScore p n \<le> 1
     \<and> \<bar>runningScore p n - (real p - real n) / 10\<bar> \<le> 1 / 2 ^ 53"
  using upto_10 [OF assms(1)] upto_10 [OF assms(2)]
  by (elim insertE emptyE; simp only: runningScore_table; simp)

lemma count_happy_love:
  "positiveCount ''I am happy and love this'' = 2"
  "negativeCount ''I am happy and love this'' = 0"
  by (code_simp+)

lemma count_sad_angry:
  "positiveCount ''I am sad and angry'' = 0"
  "negativeCount ''I am sad and angry'' = 2"
  by (code_simp+)

lemma count_empty: "positiveCount '''' = 0" "negativeCount '''' = 0"
  by (code_simp+)

lemma count_happy_thrice:
  "positiveCount ''happy happy happy'' = 1" "negativeCount ''happy happy happy'' = 0"
  "positiveCount ''happy'' = 1" "negativeCount ''happy'' = 0"
  by (code_simp+)

lemma count_three_three:
  "positiveCount ''happy good great sad bad terrible'' = 3"
  "negativeCount ''happy good great sad bad terrible'' = 3"
  by (code_simp+)

lemma count_le_10: "positiveCount text \<le> 10" "negativeCount text \<le> 10"
proof -
  have "length (filter P positiveWords) \<le> length positiveWords" for P
    by (rule length_filter_le)
  then show "positiveCount text \<le> 10" by (simp add: positiveCount_def positiveWords_def)
  have "length (filter P negativeWords) \<le> length negativeWords" for P
    by (rule length_filter_le)
  then show "negativeCount text \<le> 10" by (simp add: negativeCount_def negativeWords_def)
qed

lemma analyzeSentiment_unclamped:
  "analyzeSentiment text = runningScore (positiveCount text) (negativeCount text)"
  using runningScore_bounds [OF count_le_10, of "text" "text"]
  by (simp add: analyzeSentiment_runningScore)

text \<open>
  Claim C5. For every text the sentiment score lies in [-1, 1]; the empty text scores
  exactly 0; "I am happy and love this" scores strictly above 0; and "I am sad and
  angry" scores strictly below 0.
\<close>

theorem analyzeSentiment_range:
  "- 1 \<le> analyzeSentiment text \<and> analyzeSentiment text \<le> 1
   \<and> analyzeSentiment '''' = 0
   \<and> 0 < analyzeSentiment ''I am happy and love this''
   \<and> analyzeSentiment ''I am sad and angry'' < 0"
proof -
  have "- 1 \<le> analyzeSentiment text \<and> analyzeSentiment text \<le> 1"
    by (simp add: analyzeSentiment_runningScore)
  moreover have "analyzeSentiment '''' = 0"
    by (simp add: analyzeSentiment_unclamped count_empty runningScore_table)
  moreover have "0 < analyzeSentiment ''I am happy and love this''"
    by (simp add: analyzeSentiment_unclamped count_happy_love runningScore_table)
  moreover have "analyzeSentiment ''I am sad and angry'' < 0"
    by (simp add: analyzeSentiment_unclamped count_sad_angry runningScore_table)
  ultimately show ?thesis by (intro conjI) (elim conjE, assumption)+
qed

lemma three_tenths_js: "fsub (fmul (rnd (1 / 10)) 3) (fmul (rnd (1 / 10)) 3) = 0"
  by (simp add: fsub_def rnd_def)

text \<open>
  Claim C10, as stated: the score equals 0.1 times the number of positive words found
  minus 0.1 times the number of negative words found. It fails for a text with three
  positive and three negative words: the formula gives 0, read over the reals as well
  as evaluated in double precision, and the function returns 2 to the power -55.
\<close>

theorem analyzeSentiment_formula_counterexample:
  "positiveCount ''happy good great sad bad terrible'' = 3
   \<and> negativeCount ''happy good great sad bad terrible'' = 3
   \<and> analyzeSentiment ''happy good great sad bad terrible'' = 1 / 2 ^ 55
   \<and> analyzeSentiment ''happy good great sad bad terrible'' \<noteq> 1 / 10 * 3 - 1 / 10 * 3
   \<and> analyzeSentiment ''happy good great sad bad terrible''
       \<noteq> fsub (fmul (rnd (1 / 10)) 3) (fmul (rnd (1 / 10)) 3)"
proof -
  have v: "analyzeSentiment ''happy good great sad bad terrible'' = 1 / 2 ^ 55"
    by (simp add: analyzeSentiment_unclamped count_three_three runningScore_table)
  show ?thesis
    by (simp only: v count_three_three three_tenths_js) simp
qed

text \<open>
  Claim C10, amended. For every text the sentiment score is the double-precision
  running sum that adds 0.1 once for each positive vocabulary word occurring as a
  substring of the lower-cased text and then subtracts 0.1 once for each negative
  vocabulary word so occurring. A word counts once however often it occurs, so
  "happy happy happy" and "happy" score the same, and each count is at most 10. The
  running sum lies in [-1, 1], so the final clamp never changes it, and it differs
  from a tenth of the difference of the two counts by at most 2 to the power -53.
\<close>

theorem analyzeSentiment_running_sum:
  "analyzeSentiment text = runningScore (positiveCount text) (negativeCount text)
   \<and> positiveCount text \<le> 10 \<and> negativeCount text \<le> 10
   \<and> - 1 \<le> runningScore (positiveCount text) (negativeCount text)
   \<and> runningScore (positiveCount text) (negativeCount text) \<le> 1
   \<and> \<bar>analyzeSentiment text - (real (positiveCount text) - real (negativeCount text)) / 10\<bar>
       \<le> 1 / 2 ^ 53
   \<and> analyzeSentiment ''happy happy happy'' = analyzeSentiment ''happy''"
proof -
  note b = runningScore_bounds [OF count_le_10, of "text" "text"]
  have "analyzeSentiment ''happy happy happy'' = analyzeSentiment ''happy''"
    by (simp only: analyzeSentiment_unclamped count_happy_thrice)
  then show ?thesis
    using b count_le_10 [of "text"] by (simp only: analyzeSentiment_unclamped simp_thms)
qed

subsection \<open>Insights\<close>

text \<open>
  The literal \<^verbatim>\<open>0.3\<close> is a double just below three tenths, and no double lies
  between the two; below 1 the largest double is \<open>1 - 1 / 2 ^ 53\<close>, so the random
  index never reaches the length of the pool.
\<close>

lemma three_tenths: "rnd (3 / 10) = 5404319552844595 / 18014398509481984"
  by (simp add: rnd_eval)











lemma known_mood_not_inherited:
  "mood \<in> {''happy'', ''sad'', ''anxious'', ''calm'', ''frustrated'', ''tired''}
     \<Longrightarrow> mood \<notin> set Object_prototype_names"
  by (auto simp add: Object_prototype_names_def)



text \<open>
  A mood that names an inherited property is outside this result: called with the
  mood "toString", the function finds the inherited function in the table, selects no
  message, and returns \<^verbatim>\<open>undefined\<close> for a neutral sentiment and a sentence
  starting with "undefined" for a positive one. The component never passes such a
  mood.
\<close>

lemma generateInsights_inherited_name:
  "generateInsights random ''toString'' text 0 = None
   \<and> generateInsights random ''toString'' text 1
       = Some ''undefined Your positive energy is wonderful to see!''"
proof -
  have m: "moodInsights ''toString'' = None"
    by (simp add: moodInsights_def insights_def Object_prototype_names_def)
  show ?thesis
    by (simp add: generateInsights_def m template_def three_tenths)
qed

subsection \<open>Recomputing the wellness score\<close>

text \<open>
  Claim C9. The sentiment score, the stress tier and the wellness score are functions
  of their inputs alone: equal inputs give equal outputs. The data that the dashboard
  computes does not depend on the stored score, and loading the dashboard a second
  time, after the first load has written its score, returns the same data and leaves
  the same stored score.
\<close>

theorem recomputation_is_idempotent:
  "(t = t' \<longrightarrow> analyzeSentiment t = analyzeSentiment t')
   \<and> (hr = hr' \<longrightarrow> calculateStressLevel hr = calculateStressLevel hr')
   \<and> ((m, f, s, h, d) = (m', f', s', h', d')
        \<longrightarrow> calculatedScore m f s h d = calculatedScore m' f' s' h' d')
   \<and> fst (loadDashboardData (q\<lparr>profile := v\<rparr>)) = fst (loadDashboardData q)
   \<and> loadDashboardData (q\<lparr>profile := snd (loadDashboardData q)\<rparr>) = loadDashboardData q"
proof -
  define F :: "int option \<Rightarrow> int \<Rightarrow> int option" where
    "F = (\<lambda>p x. if x \<noteq> (case p of None \<Rightarrow> 50 | Some v \<Rightarrow> if v = 0 then 50 else v)
                then (case p of None \<Rightarrow> None
                      | Some v \<Rightarrow> if 0 \<le> x \<and> x \<le> 100 then Some x else Some v)
                else p)"
  have a: "fst (loadDashboardData (r\<lparr>profile := v\<rparr>)) = fst (loadDashboardData r)" for r v
    by (simp add: loadDashboardData_def Let_def)
  have gen: "snd (loadDashboardData r) = F (profile r) (wellnessScore (fst (loadDashboardData r)))"
    for r
    by (simp add: loadDashboardData_def Let_def F_def)
  have idem: "F (F p x) x = F p x" for p x
    by (auto simp add: F_def split: option.splits)
  have "snd (loadDashboardData (q\<lparr>profile := snd (loadDashboardData q)\<rparr>))
      = F (snd (loadDashboardData q)) (wellnessScore (fst (loadDashboardData q)))"
    by (simp add: gen [of "q\<lparr>profile := snd (loadDashboardData q)\<rparr>"] a)
  also have "\<dots> = snd (loadDashboardData q)"
    by (simp only: gen [of q] idem)
  finally have b: "snd (loadDashboardData (q\<lparr>profile := snd (loadDashboardData q)\<rparr>))
      = snd (loadDashboardData q)" .
  have "loadDashboardData (q\<lparr>profile := snd (loadDashboardData q)\<rparr>) = loadDashboardData q"
    by (rule prod_eqI) (simp_all only: a b)
  with a [where r = q and v = v] show ?thesis by simp
qed

theorem recomputation_is_idempotent_witness:
  "analyzeSentiment ''calm and happy'' = analyzeSentiment ''calm and happy''
   \<and> calculateStressLevel 72 = calculateStressLevel 72
   \<and> calculatedScore 5 10 4 8 3 = calculatedScore 5 10 4 8 3"
  using recomputation_is_idempotent
    [of "''calm and happy''" "''calm and happy''" 72 72 5 10 4 8 3 5 10 4 8 3]
  by simp


end
